theory Spec2Isabelle
  imports Complex_Main "HOL-Library.Char_ord" "HOL-Library.List_Lexorder"
    "HOL-Library.Product_Lexorder" "HOL-Library.Multiset"
begin

section \<open>Data model\<close>

text \<open>
  The dashboard (\<^verbatim>\<open>app.py\<close>, and its variant \<^verbatim>\<open>new_app.py\<close>) is one straight-line
  pandas script: load four tables, filter the transaction table, aggregate, chart.
  A data frame is modelled as the list of its rows, in index order. A cell that pandas
  reads as missing (NaN, NaT) is \<open>None\<close>. Numbers are exact rationals: rounding of
  binary floating point is not modelled. A timestamp is the number of nanoseconds since
  1970-01-01T00:00 (the value of a \<^verbatim>\<open>pd.Timestamp\<close>), a calendar date the number of
  days since 1970-01-01; the 64-bit bound of pandas timestamps is not modelled.
  The column \<^verbatim>\<open>transaction_datetime\<close> is held parsed: \<^verbatim>\<open>pd.to_datetime\<close> of lines 22, 23
  and 33 is the identity of the model, and a table with a date that does not parse
  (the script stops at line 22) is not a table of the model.
\<close>

type_synonym timestamp = int
type_synonym date = int

record transaction =
  transaction_id :: "string option"
  customer_id :: "string option"
  transaction_datetime :: "timestamp option"
  emirate :: "string option"
  category :: "string option"
  product :: "string option"
  quantity :: "rat option"
  total_aed :: "rat option"
  gender :: "string option"
  age :: "rat option"
  has_loyalty :: "bool option"
  points_redeemed :: "rat option"

record ad_budget_row =
  ad_month :: "string option"
  ad_category :: "string option"
  ad_budget_aed :: "rat option"

text \<open>
  The sidebar widgets. \<^verbatim>\<open>st.sidebar.date_input\<close> with a two-element default returns a
  tuple of zero, one or two dates (the user may have picked only the start so far);
  the three multiselects return lists of column values; the selectbox returns one of
  its three options.
\<close>

datatype loyalty_filter = LF_All | LF_Loyalty_Members | LF_Non_members

record filter_state =
  date_range :: "date list"
  selected_emirates :: "string option list"
  selected_categories :: "string option list"
  selected_gender :: "string option list"
  loyalty_choice :: loyalty_filter

datatype error = IndexError | NameError | KeyError | ValueError

section \<open>Column reductions of pandas\<close>

text \<open>\<^verbatim>\<open>Series.sum()\<close>, \<^verbatim>\<open>Series.mean()\<close> and \<^verbatim>\<open>Series.nunique()\<close> skip
  missing cells; the mean of no value at all is NaN.\<close>

fun dropna :: "'a option list \<Rightarrow> 'a list" where
  "dropna [] = []"
| "dropna (None # xs) = dropna xs"
| "dropna (Some x # xs) = x # dropna xs"

definition series_sum :: "rat option list \<Rightarrow> rat" where
  "series_sum xs = sum_list (dropna xs)"

definition series_mean :: "rat option list \<Rightarrow> rat option" where
  "series_mean xs =
     (let ys = dropna xs
      in if ys = [] then None else Some (sum_list ys / of_nat (length ys)))"

definition series_nunique :: "'a option list \<Rightarrow> nat" where
  "series_nunique xs = length (remdups (dropna xs))"

section \<open>Filter engine (app.py lines 32-40, new_app.py lines 34-42)\<close>

definition ns_per_day :: int where
  "ns_per_day = 86400000000000"

text \<open>\<^verbatim>\<open>pd.to_datetime(d)\<close> of a date is midnight of that day.\<close>

definition to_datetime :: "date \<Rightarrow> timestamp" where
  "to_datetime d = d * ns_per_day"

text \<open>Line 35: the comparison of NaT with anything is False.\<close>

definition in_date_range :: "timestamp \<Rightarrow> timestamp \<Rightarrow> transaction \<Rightarrow> bool" where
  "in_date_range start end r =
     (case transaction_datetime r of
        None \<Rightarrow> False
      | Some t \<Rightarrow> start \<le> t \<and> t < end)"

text \<open>Line 36: \<^verbatim>\<open>isin\<close> is membership in the selected values.\<close>

definition in_selection :: "filter_state \<Rightarrow> transaction \<Rightarrow> bool" where
  "in_selection fs r =
     (emirate r \<in> set (selected_emirates fs)
      \<and> category r \<in> set (selected_categories fs)
      \<and> gender r \<in> set (selected_gender fs))"

text \<open>Lines 37-40: a missing \<open>has_loyalty\<close> equals neither True nor False.\<close>

definition loyalty_step :: "loyalty_filter \<Rightarrow> transaction list \<Rightarrow> transaction list" where
  "loyalty_step lf df =
     (case lf of
        LF_Loyalty_Members \<Rightarrow> filter (\<lambda>r. has_loyalty r = Some True) df
      | LF_Non_members \<Rightarrow> filter (\<lambda>r. has_loyalty r = Some False) df
      | LF_All \<Rightarrow> df)"

text \<open>
  Line 34 reads \<^verbatim>\<open>date_range[0]\<close> and \<^verbatim>\<open>date_range[1]\<close>: a tuple with fewer than
  two dates raises IndexError and the script stops.
\<close>

definition apply_filters :: "filter_state \<Rightarrow> transaction list \<Rightarrow> error + transaction list" where
  "apply_filters fs transactions =
     (case date_range fs of
        d0 # d1 # _ \<Rightarrow>
          (let df = transactions;
               start = to_datetime d0;
               end = to_datetime d1 + ns_per_day;
               df = filter (in_date_range start end) df;
               df = filter (in_selection fs) df
           in Inr (loyalty_step (loyalty_choice fs) df))
      | _ \<Rightarrow> Inl IndexError)"

section \<open>KPIs (app.py lines 43-45, new_app.py lines 45-47)\<close>

definition total_sales :: "'a transaction_scheme list \<Rightarrow> rat" where
  "total_sales df = series_sum (map total_aed df)"

definition total_transactions :: "'a transaction_scheme list \<Rightarrow> nat" where
  "total_transactions df = series_nunique (map transaction_id df)"

definition avg_basket :: "'a transaction_scheme list \<Rightarrow> rat option" where
  "avg_basket df = series_mean (map total_aed df)"

text \<open>
  Lines 46-48 print the KPIs with \<^verbatim>\<open>f"{total_sales:,.2f}"\<close>, \<^verbatim>\<open>f"{total_transactions}"\<close>
  and \<^verbatim>\<open>f"{avg_basket:,.2f}"\<close>. Python's format \<^verbatim>\<open>,.2f\<close> rounds to two decimals
  (ties to even), groups the integer digits in threes with commas, and prints NaN as
  \<^verbatim>\<open>nan\<close>; it raises for no float.
\<close>

definition digit_char :: "nat \<Rightarrow> char" where
  "digit_char d = ''0123456789'' ! d"

fun digits :: "nat \<Rightarrow> string" where
  "digits n = (if n < 10 then [digit_char n] else digits (n div 10) @ [digit_char (n mod 10)])"

fun group_thousands :: "string \<Rightarrow> string" where
  "group_thousands ds =
     (if length ds \<le> 3 then ds
      else group_thousands (take (length ds - 3) ds) @ '','' @ drop (length ds - 3) ds)"

definition round_half_even :: "rat \<Rightarrow> int" where
  "round_half_even y =
     (let q = \<lfloor>y\<rfloor>; f = y - of_int q
      in if f < 1 / 2 then q else if 1 / 2 < f then q + 1
         else if even q then q else q + 1)"

definition zero_pad :: "nat \<Rightarrow> string \<Rightarrow> string" where
  "zero_pad w ds = replicate (w - length ds) CHR ''0'' @ ds"

definition format_2f :: "rat option \<Rightarrow> string" where
  "format_2f x =
     (case x of
        None \<Rightarrow> ''nan''
      | Some v \<Rightarrow>
          (let c = nat (round_half_even (\<bar>v\<bar> * 100))
           in (if v < 0 then ''-'' else [])
              @ group_thousands (digits (c div 100)) @ ''.'' @ zero_pad 2 (digits (c mod 100))))"

record kpi_metrics =
  metric_total_sales :: string
  metric_transactions :: string
  metric_avg_basket :: string

definition render_kpis :: "'a transaction_scheme list \<Rightarrow> kpi_metrics" where
  "render_kpis df =
     \<lparr>metric_total_sales = format_2f (Some (total_sales df)),
      metric_transactions = digits (total_transactions df),
      metric_avg_basket = format_2f (avg_basket df)\<rparr>"

section \<open>Aggregation views\<close>

subsection \<open>Age distribution (app.py lines 54-56)\<close>

definition age_bins :: "rat list" where
  "age_bins = [18, 25, 35, 45, 55, 65, 80]"

definition age_labels :: "string list" where
  "age_labels = [''18-24'', ''25-34'', ''35-44'', ''45-54'', ''55-64'', ''65+'']"

text \<open>
  \<^verbatim>\<open>pd.cut(x, bins, labels, include_lowest=True)\<close> with its default \<^verbatim>\<open>right=True\<close>:
  pandas computes \<^verbatim>\<open>ids = bins.searchsorted(x, side='left')\<close>, the number of edges
  strictly below \<open>x\<close>, sets \<^verbatim>\<open>ids\<close> to 1 where \<open>x\<close> equals the first edge, and gives NaN
  where \<open>x\<close> is NaN or \<^verbatim>\<open>ids\<close> is 0 or \<^verbatim>\<open>len(bins)\<close>; otherwise the label number
  \<^verbatim>\<open>ids - 1\<close>.
\<close>

definition searchsorted_left :: "rat list \<Rightarrow> rat \<Rightarrow> nat" where
  "searchsorted_left bins x = length (takeWhile (\<lambda>b. b < x) bins)"

definition cut :: "rat list \<Rightarrow> string list \<Rightarrow> rat option \<Rightarrow> string option" where
  "cut bins labels x =
     (case x of
        None \<Rightarrow> None
      | Some a \<Rightarrow>
          (let ids = (if a = hd bins then 1 else searchsorted_left bins a)
           in if ids = length bins \<or> ids = 0 then None else Some (labels ! (ids - 1))))"

text \<open>Line 55 adds the column \<^verbatim>\<open>age_group\<close> to \<^verbatim>\<open>df\<close> itself: from here on the
  filtered view has thirteen columns.\<close>

record aged_transaction = transaction +
  age_group :: "string option"

definition add_age_group :: "transaction \<Rightarrow> aged_transaction" where
  "add_age_group r = transaction.extend r \<lparr>age_group = cut age_bins age_labels (age r)\<rparr>"

text \<open>Line 56 groups by a categorical column: every category gets a row, in the order
  of the categories (the default \<^verbatim>\<open>observed=False\<close> of pandas 1 and 2), with sum 0 when
  no row is in it; a row whose \<^verbatim>\<open>age_group\<close> is NaN is in no group.\<close>

definition age_dist :: "aged_transaction list \<Rightarrow> (string \<times> rat) list" where
  "age_dist df =
     map (\<lambda>l. (l, series_sum (map total_aed (filter (\<lambda>r. age_group r = Some l) df)))) age_labels"

subsection \<open>Grouping by ordinary columns\<close>

text \<open>
  \<^verbatim>\<open>df.groupby(keys)\<close> with the defaults \<^verbatim>\<open>sort=True\<close>, \<^verbatim>\<open>dropna=True\<close>: one group
  for each distinct key, in ascending order of the key; a row with a missing key is in
  no group.
\<close>

definition group_keys :: "('r \<Rightarrow> 'k::linorder option) \<Rightarrow> 'r list \<Rightarrow> 'k list" where
  "group_keys key df = sort (remdups (dropna (map key df)))"

definition groupby_agg ::
    "('r \<Rightarrow> 'k::linorder option) \<Rightarrow> ('r list \<Rightarrow> 'v) \<Rightarrow> 'r list \<Rightarrow> ('k \<times> 'v) list" where
  "groupby_agg key agg df =
     map (\<lambda>k. (k, agg (filter (\<lambda>r. key r = Some k) df))) (group_keys key df)"

definition key2 :: "('r \<Rightarrow> 'a option) \<Rightarrow> ('r \<Rightarrow> 'b option) \<Rightarrow> 'r \<Rightarrow> ('a \<times> 'b) option" where
  "key2 f g r =
     (case f r of
        None \<Rightarrow> None
      | Some a \<Rightarrow> (case g r of None \<Rightarrow> None | Some b \<Rightarrow> Some (a, b)))"

subsection \<open>Gender, emirate and category (lines 60 and 66)\<close>

definition gender_dist :: "'a transaction_scheme list \<Rightarrow> (string \<times> rat) list" where
  "gender_dist df = groupby_agg gender (\<lambda>g. series_sum (map total_aed g)) df"

definition cat_em :: "'a transaction_scheme list \<Rightarrow> ((string \<times> string) \<times> rat) list" where
  "cat_em df = groupby_agg (key2 emirate category) (\<lambda>g. series_sum (map total_aed g)) df"

subsection \<open>Loyalty impact (lines 72-73)\<close>

record loyal_row =
  loyal_has_loyalty :: string
  loyal_total_sales :: rat
  loyal_transactions :: nat
  loyal_avg_basket :: "rat option"

definition loyal :: "'a transaction_scheme list \<Rightarrow> loyal_row list" where
  "loyal df =
     map (\<lambda>(k, g).
            \<lparr>loyal_has_loyalty = (if k then ''Members'' else ''Non-members''),
             loyal_total_sales = series_sum (map total_aed g),
             loyal_transactions = series_nunique (map transaction_id g),
             loyal_avg_basket = series_mean (map total_aed g)\<rparr>)
         (groupby_agg has_loyalty (\<lambda>g. g) df)"

subsection \<open>Points redeemed (lines 78-84)\<close>

text \<open>\<open>None\<close> is the branch that shows the informational message instead of a chart.\<close>

definition redeem_summary :: "'a transaction_scheme list \<Rightarrow> (string \<times> rat \<times> rat) list option" where
  "redeem_summary df =
     (let redeem = filter (\<lambda>r. case points_redeemed r of None \<Rightarrow> False | Some p \<Rightarrow> 0 < p) df
      in if redeem \<noteq> []
         then Some (groupby_agg customer_id
                      (\<lambda>g. (series_sum (map points_redeemed g), series_sum (map total_aed g)))
                      redeem)
         else None)"

subsection \<open>Ad budget against sales (app.py lines 88-92, new_app.py lines 90-98)\<close>

text \<open>
  \<^verbatim>\<open>dt.to_period('M').astype(str)\<close> prints the year and month of the timestamp's day in
  the proleptic Gregorian calendar as \<^verbatim>\<open>YYYY-MM\<close>, and NaT as \<^verbatim>\<open>NaT\<close>.
\<close>

definition civil_year_month :: "int \<Rightarrow> int \<times> int" where
  "civil_year_month days =
     (let z = days + 719468;
          era = z div 146097;
          doe = z - era * 146097;
          yoe = (doe - doe div 1460 + doe div 36524 - doe div 146096) div 365;
          doy = doe - (365 * yoe + yoe div 4 - yoe div 100);
          mp = (5 * doy + 2) div 153;
          m = (if mp < 10 then mp + 3 else mp - 9);
          y = yoe + era * 400
      in (if m \<le> 2 then y + 1 else y, m))"

definition month_key :: "timestamp option \<Rightarrow> string" where
  "month_key t =
     (case t of
        None \<Rightarrow> ''NaT''
      | Some ns \<Rightarrow>
          (case civil_year_month (ns div ns_per_day) of
             (y, m) \<Rightarrow> zero_pad 4 (digits (nat y)) @ ''-'' @ zero_pad 2 (digits (nat m))))"

text \<open>Lines 88-89 copy the view and add the column \<^verbatim>\<open>month\<close> to the copy.\<close>

record monthly_transaction = aged_transaction +
  month :: string

definition add_month :: "aged_transaction \<Rightarrow> monthly_transaction" where
  "add_month r = aged_transaction.extend r \<lparr>month = month_key (transaction_datetime r)\<rparr>"

definition sales_month_cat :: "monthly_transaction list \<Rightarrow> ((string \<times> string) \<times> rat) list" where
  "sales_month_cat monthly_sales =
     groupby_agg (key2 (\<lambda>r. Some (month r)) category)
       (\<lambda>g. series_sum (map total_aed g)) monthly_sales"

text \<open>
  \<^verbatim>\<open>pd.merge(ad, sales_month_cat, on=['month','category'], how='left')\<close>: every row of
  the left table, in its order, once for each row of the right table with the same
  keys, and once with a missing \<^verbatim>\<open>total_aed\<close> when there is none.
\<close>

definition merge_left ::
    "ad_budget_row list \<Rightarrow> ((string \<times> string) \<times> rat) list \<Rightarrow> (ad_budget_row \<times> rat option) list" where
  "merge_left ad sales =
     concat (map (\<lambda>a.
        (let ms = filter (\<lambda>(k, v). ad_month a = Some (fst k) \<and> ad_category a = Some (snd k)) sales
         in if ms = [] then [(a, None)] else map (\<lambda>(k, v). (a, Some v)) ms)) ad)"

text \<open>\<^verbatim>\<open>app.py\<close> line 92 ends in \<^verbatim>\<open>.fillna(0)\<close>, which puts the number 0 into every
  missing cell of the merged table, the key columns included.\<close>

datatype cell = Str string | Num rat

record merged_row =
  merged_month :: cell
  merged_category :: cell
  merged_ad_budget_aed :: rat
  merged_total_aed :: rat

definition fillna0 :: "rat option \<Rightarrow> rat" where
  "fillna0 x = (case x of None \<Rightarrow> 0 | Some v \<Rightarrow> v)"

definition fillna0_str :: "string option \<Rightarrow> cell" where
  "fillna0_str x = (case x of None \<Rightarrow> Num 0 | Some s \<Rightarrow> Str s)"

definition app_merged ::
    "ad_budget_row list \<Rightarrow> ((string \<times> string) \<times> rat) list \<Rightarrow> merged_row list" where
  "app_merged ad sales =
     map (\<lambda>(a, t).
            \<lparr>merged_month = fillna0_str (ad_month a),
             merged_category = fillna0_str (ad_category a),
             merged_ad_budget_aed = fillna0 (ad_budget_aed a),
             merged_total_aed = fillna0 t\<rparr>)
         (merge_left ad sales)"

text \<open>
  \<^verbatim>\<open>new_app.py\<close> merges at line 96 and then assigns the two numeric columns of the
  merged table, filled with 0, at lines 97 and 98.
\<close>

record new_merged_row =
  new_merged_month :: "string option"
  new_merged_category :: "string option"
  new_merged_ad_budget_aed :: "rat option"
  new_merged_total_aed :: "rat option"

definition new_app_merge ::
    "ad_budget_row list \<Rightarrow> ((string \<times> string) \<times> rat) list \<Rightarrow> new_merged_row list" where
  "new_app_merge ad sales =
     map (\<lambda>(a, t).
            \<lparr>new_merged_month = ad_month a,
             new_merged_category = ad_category a,
             new_merged_ad_budget_aed = ad_budget_aed a,
             new_merged_total_aed = t\<rparr>)
         (merge_left ad sales)"

definition fill_ad_budget_aed :: "new_merged_row list \<Rightarrow> new_merged_row list" where
  "fill_ad_budget_aed merged =
     map (\<lambda>r. r\<lparr>new_merged_ad_budget_aed := Some (fillna0 (new_merged_ad_budget_aed r))\<rparr>) merged"

definition fill_total_aed :: "new_merged_row list \<Rightarrow> new_merged_row list" where
  "fill_total_aed merged =
     map (\<lambda>r. r\<lparr>new_merged_total_aed := Some (fillna0 (new_merged_total_aed r))\<rparr>) merged"

definition new_app_merged ::
    "ad_budget_row list \<Rightarrow> ((string \<times> string) \<times> rat) list \<Rightarrow> new_merged_row list" where
  "new_app_merged ad sales = fill_total_aed (fill_ad_budget_aed (new_app_merge ad sales))"

text \<open>
  \<^verbatim>\<open>new_app.py\<close> lines 101-111 go on: the column \<^verbatim>\<open>month_dt\<close> is assigned to the merged
  table, and \<^verbatim>\<open>merged\<close> is bound anew to the table sorted by that column. The figure of
  lines 113-137 is drawn from this sorted table; the figure itself is not modelled.

  \<^verbatim>\<open>safe_month_to_dt\<close> (lines 101-108) tries \<^verbatim>\<open>pd.to_datetime(str(m) + "-01")\<close>, then
  \<^verbatim>\<open>pd.to_datetime(m)\<close>, and gives NaT when both raise. The date parser of pandas is
  the parameter \<open>parse\<close>: it raises (\<open>Inl\<close>) or gives a timestamp or NaT. \<^verbatim>\<open>str\<close> of a
  missing month is \<^verbatim>\<open>nan\<close>, and \<^verbatim>\<open>pd.to_datetime\<close> of a missing value is NaT.
  Timestamps are without time zone, as everywhere in the model.
\<close>

record dated_merged_row = new_merged_row +
  month_dt :: "timestamp option"

definition month_str :: "string option \<Rightarrow> string" where
  "month_str m = (case m of None \<Rightarrow> ''nan'' | Some s \<Rightarrow> s)"

definition safe_month_to_dt ::
    "(string \<Rightarrow> error + timestamp option) \<Rightarrow> string option \<Rightarrow> timestamp option" where
  "safe_month_to_dt parse m =
     (case parse (month_str m @ ''-01'') of
        Inr t \<Rightarrow> t
      | Inl e \<Rightarrow>
          (case m of
             None \<Rightarrow> None
           | Some s \<Rightarrow> (case parse s of Inr t \<Rightarrow> t | Inl e' \<Rightarrow> None)))"

definition add_month_dt ::
    "(string \<Rightarrow> error + timestamp option) \<Rightarrow> new_merged_row \<Rightarrow> dated_merged_row" where
  "add_month_dt parse r =
     new_merged_row.extend r \<lparr>month_dt = safe_month_to_dt parse (new_merged_month r)\<rparr>"

text \<open>
  \<^verbatim>\<open>merged.sort_values('month_dt')\<close> (line 111) sorts ascending with NaT last, by the
  default \<^verbatim>\<open>kind='quicksort'\<close>: the sorting routine of numpy, which is not part of this
  program. It is the parameter \<open>srt\<close>; what is known of it is \<open>sorts_by_month_dt\<close>: the
  result is a rearrangement of the rows, ascending in \<open>month_dt\<close> with NaT last.
\<close>

definition month_dt_key :: "dated_merged_row \<Rightarrow> nat \<times> int" where
  "month_dt_key r = (case month_dt r of None \<Rightarrow> (1, 0) | Some t \<Rightarrow> (0, t))"

definition sorts_by_month_dt :: "(dated_merged_row list \<Rightarrow> dated_merged_row list) \<Rightarrow> bool" where
  "sorts_by_month_dt srt \<longleftrightarrow>
     (\<forall>xs. mset (srt xs) = mset xs \<and> sorted (map month_dt_key (srt xs)))"

definition new_app_sorted ::
    "(string \<Rightarrow> error + timestamp option) \<Rightarrow> (dated_merged_row list \<Rightarrow> dated_merged_row list)
      \<Rightarrow> ad_budget_row list \<Rightarrow> ((string \<times> string) \<times> rat) list \<Rightarrow> dated_merged_row list" where
  "new_app_sorted parse srt ad sales = srt (map (add_month_dt parse) (new_app_merged ad sales))"

subsection \<open>Top products (app.py line 114, new_app.py line 141)\<close>

record product_row =
  top_category :: string
  top_product :: string
  sales :: rat
  qty :: rat

definition product_groups :: "'a transaction_scheme list \<Rightarrow> product_row list" where
  "product_groups df =
     map (\<lambda>((c, p), g).
            \<lparr>top_category = c, top_product = p,
             sales = series_sum (map total_aed g),
             qty = series_sum (map quantity g)\<rparr>)
         (groupby_agg (key2 category product) (\<lambda>g. g) df)"

text \<open>
  \<^verbatim>\<open>sort_values('sales', ascending=False)\<close> uses the default \<^verbatim>\<open>kind='quicksort'\<close>: the
  sorting routine of numpy, which is not part of this program and which pandas
  documents as not stable. It is a parameter \<open>srt\<close> of the model; what is known of it
  is \<open>sorts_descending\<close>: the result is a rearrangement of the rows with \<open>sales\<close>
  descending.
\<close>

definition sorts_descending :: "(product_row list \<Rightarrow> product_row list) \<Rightarrow> bool" where
  "sorts_descending srt \<longleftrightarrow>
     (\<forall>xs. mset (srt xs) = mset xs \<and> sorted_wrt (\<lambda>a b. sales b \<le> sales a) (srt xs))"

definition top_products ::
    "(product_row list \<Rightarrow> product_row list) \<Rightarrow> 'a transaction_scheme list \<Rightarrow> product_row list" where
  "top_products srt df = take 15 (srt (product_groups df))"

subsection \<open>Export (app.py lines 120-121, new_app.py lines 147-148)\<close>

text \<open>
  \<^verbatim>\<open>df.to_csv(index=False)\<close> writes the column names and then one record for each row,
  without the index. Fields are separated by commas, records end with a line feed (the
  line terminator where the scripts run); a field that contains a comma, a double quote
  or a line feed is written between double quotes, with every double quote in it
  doubled; a carriage return alone does not make a field quoted. A missing cell is
  written as the empty field. How pandas prints a number or a timestamp is not
  modelled: it is the parameter \<open>fmt\<close>.
\<close>

definition comma :: char where
  "comma = CHR 0x2C"

definition dquote :: char where
  "dquote = CHR 0x22"

definition newline :: char where
  "newline = CHR 0x0A"


definition needs_quote :: "string \<Rightarrow> bool" where
  "needs_quote s \<longleftrightarrow> comma \<in> set s \<or> dquote \<in> set s \<or> newline \<in> set s"

fun double_quotes :: "string \<Rightarrow> string" where
  "double_quotes [] = []"
| "double_quotes (c # cs) = (if c = dquote then [c, c] else [c]) @ double_quotes cs"

definition write_field :: "string \<Rightarrow> string" where
  "write_field s = (if needs_quote s then [dquote] @ double_quotes s @ [dquote] else s)"

fun write_fields :: "string list \<Rightarrow> string" where
  "write_fields [] = []"
| "write_fields [f] = write_field f"
| "write_fields (f # fs) = write_field f @ [comma] @ write_fields fs"

definition write_record :: "string list \<Rightarrow> string" where
  "write_record fs = write_fields fs @ [newline]"

record csv_format =
  number_text :: "rat \<Rightarrow> string"
  datetime_text :: "timestamp \<Rightarrow> string"

definition cell_text :: "('a \<Rightarrow> string) \<Rightarrow> 'a option \<Rightarrow> string" where
  "cell_text f x = (case x of None \<Rightarrow> [] | Some v \<Rightarrow> f v)"

definition bool_text :: "bool \<Rightarrow> string" where
  "bool_text b = (if b then ''True'' else ''False'')"

definition transaction_columns :: "string list" where
  "transaction_columns =
     [''transaction_id'', ''customer_id'', ''transaction_datetime'', ''emirate'', ''category'',
      ''product'', ''quantity'', ''total_aed'', ''gender'', ''age'', ''has_loyalty'',
      ''points_redeemed'']"

definition df_columns :: "string list" where
  "df_columns = transaction_columns @ [''age_group'']"

definition row_cells :: "csv_format \<Rightarrow> aged_transaction \<Rightarrow> string list" where
  "row_cells fmt r =
     [cell_text (\<lambda>s. s) (transaction_id r), cell_text (\<lambda>s. s) (customer_id r),
      cell_text (datetime_text fmt) (transaction_datetime r),
      cell_text (\<lambda>s. s) (emirate r), cell_text (\<lambda>s. s) (category r),
      cell_text (\<lambda>s. s) (product r),
      cell_text (number_text fmt) (quantity r), cell_text (number_text fmt) (total_aed r),
      cell_text (\<lambda>s. s) (gender r), cell_text (number_text fmt) (age r),
      cell_text bool_text (has_loyalty r), cell_text (number_text fmt) (points_redeemed r),
      cell_text (\<lambda>s. s) (age_group r)]"

definition to_csv :: "csv_format \<Rightarrow> aged_transaction list \<Rightarrow> string" where
  "to_csv fmt df = concat (map write_record (df_columns # map (row_cells fmt) df))"

subsection \<open>Reading a table (app.py lines 9-11)\<close>




section \<open>The two scripts, with the data frames in a store\<close>

text \<open>
  A data frame is a mutable object: assigning a column changes the frame that every
  name bound to it sees. The store holds the frames; an address is an index into it.
  \<^verbatim>\<open>copy()\<close>, a boolean selection \<^verbatim>\<open>df[mask]\<close> and \<^verbatim>\<open>pd.merge\<close> make a new frame; an
  assignment \<^verbatim>\<open>df[column] = ...\<close> overwrites the frame at the address of \<^verbatim>\<open>df\<close>. Group
  and aggregate results are never assigned to afterwards and are kept as plain values.
  Reading a name that is bound to no frame is \<open>NameError\<close>; reading a frame that lacks
  the columns asked for is \<open>KeyError\<close>.
\<close>

datatype frame =
    Transactions "transaction list"
  | Aged "aged_transaction list"
  | Monthly "monthly_transaction list"
  | AdBudget "ad_budget_row list"
  | NewMerged "new_merged_row list"
  | Dated "dated_merged_row list"

type_synonym store = "frame list"

definition new_object :: "frame \<Rightarrow> store \<Rightarrow> nat \<times> store" where
  "new_object v s = (length s, s @ [v])"

definition and_then :: "error + 'a \<Rightarrow> ('a \<Rightarrow> error + 'b) \<Rightarrow> error + 'b" where
  "and_then m f = (case m of Inl e \<Rightarrow> Inl e | Inr v \<Rightarrow> f v)"

definition read_object :: "store \<Rightarrow> nat \<Rightarrow> error + frame" where
  "read_object s a = (if a < length s then Inr (s ! a) else Inl NameError)"

definition get_transactions :: "store \<Rightarrow> nat \<Rightarrow> error + transaction list" where
  "get_transactions s a =
     and_then (read_object s a) (\<lambda>v. case v of Transactions rows \<Rightarrow> Inr rows | _ \<Rightarrow> Inl KeyError)"

definition get_aged :: "store \<Rightarrow> nat \<Rightarrow> error + aged_transaction list" where
  "get_aged s a =
     and_then (read_object s a) (\<lambda>v. case v of Aged rows \<Rightarrow> Inr rows | _ \<Rightarrow> Inl KeyError)"

definition get_monthly :: "store \<Rightarrow> nat \<Rightarrow> error + monthly_transaction list" where
  "get_monthly s a =
     and_then (read_object s a) (\<lambda>v. case v of Monthly rows \<Rightarrow> Inr rows | _ \<Rightarrow> Inl KeyError)"

definition get_ad_budget :: "store \<Rightarrow> nat \<Rightarrow> error + ad_budget_row list" where
  "get_ad_budget s a =
     and_then (read_object s a) (\<lambda>v. case v of AdBudget rows \<Rightarrow> Inr rows | _ \<Rightarrow> Inl KeyError)"

definition get_new_merged :: "store \<Rightarrow> nat \<Rightarrow> error + new_merged_row list" where
  "get_new_merged s a =
     and_then (read_object s a) (\<lambda>v. case v of NewMerged rows \<Rightarrow> Inr rows | _ \<Rightarrow> Inl KeyError)"

definition get_dated :: "store \<Rightarrow> nat \<Rightarrow> error + dated_merged_row list" where
  "get_dated s a =
     and_then (read_object s a) (\<lambda>v. case v of Dated rows \<Rightarrow> Inr rows | _ \<Rightarrow> Inl KeyError)"

text \<open>
  Lines 32-40 of \<^verbatim>\<open>app.py\<close> (34-42 of \<^verbatim>\<open>new_app.py\<close>): \<^verbatim>\<open>df\<close> is a copy of
  \<^verbatim>\<open>transactions\<close>; its date column is assigned to (the parsed column, which the model
  holds already); the selections of lines 35-40 leave \<^verbatim>\<open>df\<close> bound to a new frame, the
  filtered view. The frames in between are bound to no name afterwards; the model
  makes one new frame for the result of the selections.
\<close>

definition filter_step :: "filter_state \<Rightarrow> nat \<Rightarrow> store \<Rightarrow> error + (nat \<times> store)" where
  "filter_step fs transactions s =
     and_then (get_transactions s transactions) (\<lambda>rows.
       let (df, s) = new_object (Transactions rows) s in
     and_then (get_transactions s df) (\<lambda>rows.
       let s = s[df := Transactions rows] in
     and_then (get_transactions s df) (\<lambda>rows.
     and_then (apply_filters fs rows) (\<lambda>rows.
       Inr (new_object (Transactions rows) s)))))"

text \<open>Lines 43-48: the KPIs and their rendering read \<^verbatim>\<open>df\<close>.\<close>

record kpis =
  kpi_total_sales :: rat
  kpi_total_transactions :: nat
  kpi_avg_basket :: "rat option"
  kpi_metrics :: kpi_metrics

definition compute_kpis :: "transaction list \<Rightarrow> kpis" where
  "compute_kpis df =
     \<lparr>kpi_total_sales = total_sales df,
      kpi_total_transactions = total_transactions df,
      kpi_avg_basket = avg_basket df,
      kpi_metrics = render_kpis df\<rparr>"

definition kpi_step :: "nat \<Rightarrow> store \<Rightarrow> error + kpis" where
  "kpi_step df s = and_then (get_transactions s df) (\<lambda>rows. Inr (compute_kpis rows))"

text \<open>Lines 54-56: the column \<^verbatim>\<open>age_group\<close> is assigned to \<^verbatim>\<open>df\<close> itself, then the age
  distribution is computed from \<^verbatim>\<open>df\<close>.\<close>

definition age_step :: "nat \<Rightarrow> store \<Rightarrow> error + ((string \<times> rat) list \<times> store)" where
  "age_step df s =
     and_then (get_transactions s df) (\<lambda>rows.
       let s = s[df := Aged (map add_age_group rows)] in
     and_then (get_aged s df) (\<lambda>rows.
       Inr (age_dist rows, s)))"

text \<open>Lines 60-84: gender, emirate and category, loyalty, redemption.\<close>

record grouped_views =
  view_gender_dist :: "(string \<times> rat) list"
  view_cat_em :: "((string \<times> string) \<times> rat) list"
  view_loyal :: "loyal_row list"
  view_redeem_summary :: "(string \<times> rat \<times> rat) list option"

definition compute_views :: "aged_transaction list \<Rightarrow> grouped_views" where
  "compute_views df =
     \<lparr>view_gender_dist = gender_dist df,
      view_cat_em = cat_em df,
      view_loyal = loyal df,
      view_redeem_summary = redeem_summary df\<rparr>"

definition views_step :: "nat \<Rightarrow> store \<Rightarrow> error + grouped_views" where
  "views_step df s = and_then (get_aged s df) (\<lambda>rows. Inr (compute_views rows))"

text \<open>Lines 88-90: \<^verbatim>\<open>monthly_sales\<close> is a copy of \<^verbatim>\<open>df\<close>, the column \<^verbatim>\<open>month\<close> is
  assigned to the copy, and the copy is grouped.\<close>

definition monthly_step ::
    "nat \<Rightarrow> store \<Rightarrow> error + (((string \<times> string) \<times> rat) list \<times> store)" where
  "monthly_step df s =
     and_then (get_aged s df) (\<lambda>rows.
       let (monthly_sales, s) = new_object (Aged rows) s in
     and_then (get_aged s monthly_sales) (\<lambda>rows.
       let s = s[monthly_sales := Monthly (map add_month rows)] in
     and_then (get_monthly s monthly_sales) (\<lambda>rows.
       Inr (sales_month_cat rows, s))))"

text \<open>\<^verbatim>\<open>app.py\<close> lines 91-92: \<^verbatim>\<open>ad\<close> is a copy of \<^verbatim>\<open>ad_budget\<close>; the merged and filled
  table is a new value.\<close>

definition app_merge_step ::
    "nat \<Rightarrow> ((string \<times> string) \<times> rat) list \<Rightarrow> store \<Rightarrow> error + (merged_row list \<times> store)" where
  "app_merge_step ad_budget smc s =
     and_then (get_ad_budget s ad_budget) (\<lambda>rows.
       let (ad, s) = new_object (AdBudget rows) s in
     and_then (get_ad_budget s ad) (\<lambda>rows.
       Inr (app_merged rows smc, s)))"

text \<open>\<^verbatim>\<open>new_app.py\<close> lines 93-111: the merged table is a new frame; its two numeric
  columns and then the column \<^verbatim>\<open>month_dt\<close> are assigned to; the sorted table is a new
  frame again, and \<^verbatim>\<open>merged\<close> is bound to it.\<close>

definition new_app_merge_step ::
    "(string \<Rightarrow> error + timestamp option) \<Rightarrow> (dated_merged_row list \<Rightarrow> dated_merged_row list)
      \<Rightarrow> nat \<Rightarrow> ((string \<times> string) \<times> rat) list \<Rightarrow> store
      \<Rightarrow> error + (dated_merged_row list \<times> store)" where
  "new_app_merge_step parse srt_m ad_budget smc s =
     and_then (get_ad_budget s ad_budget) (\<lambda>rows.
       let (ad, s) = new_object (AdBudget rows) s in
     and_then (get_ad_budget s ad) (\<lambda>rows.
       let (merged, s) = new_object (NewMerged (new_app_merge rows smc)) s in
     and_then (get_new_merged s merged) (\<lambda>rows.
       let s = s[merged := NewMerged (fill_ad_budget_aed rows)] in
     and_then (get_new_merged s merged) (\<lambda>rows.
       let s = s[merged := NewMerged (fill_total_aed rows)] in
     and_then (get_new_merged s merged) (\<lambda>rows.
       let s = s[merged := Dated (map (add_month_dt parse) rows)] in
     and_then (get_dated s merged) (\<lambda>rows.
       let (merged, s) = new_object (Dated (srt_m rows)) s in
     and_then (get_dated s merged) (\<lambda>rows.
       Inr (rows, s))))))))"

text \<open>Line 114 (141) and lines 120-121 (147-148): top products and the export read
  \<^verbatim>\<open>df\<close>. \<open>clicked\<close> is the value of the export button.\<close>

record tail_views =
  view_filtered :: "aged_transaction list"
  view_top_products :: "product_row list"
  view_export :: "string option"

definition compute_tail ::
    "(product_row list \<Rightarrow> product_row list) \<Rightarrow> csv_format \<Rightarrow> bool \<Rightarrow> aged_transaction list
      \<Rightarrow> tail_views" where
  "compute_tail srt fmt clicked df =
     \<lparr>view_filtered = df,
      view_top_products = top_products srt df,
      view_export = (if clicked then Some (to_csv fmt df) else None)\<rparr>"

definition tail_step ::
    "(product_row list \<Rightarrow> product_row list) \<Rightarrow> csv_format \<Rightarrow> bool \<Rightarrow> nat \<Rightarrow> store
      \<Rightarrow> error + tail_views" where
  "tail_step srt fmt clicked df s =
     and_then (get_aged s df) (\<lambda>rows. Inr (compute_tail srt fmt clicked rows))"

text \<open>What a run of the script shows: the KPIs, the seven views and the export, and the
  filtered view they are computed from.\<close>

record 'm view_model =
  vm_kpis :: kpis
  vm_age_dist :: "(string \<times> rat) list"
  vm_grouped :: grouped_views
  vm_merged :: 'm
  vm_tail :: tail_views

definition app_script ::
    "(product_row list \<Rightarrow> product_row list) \<Rightarrow> csv_format \<Rightarrow> filter_state \<Rightarrow> bool
      \<Rightarrow> nat \<Rightarrow> nat \<Rightarrow> store \<Rightarrow> error + (merged_row list view_model \<times> store)" where
  "app_script srt fmt fs clicked transactions ad_budget s =
     and_then (filter_step fs transactions s) (\<lambda>(df, s).
     and_then (kpi_step df s) (\<lambda>k.
     and_then (age_step df s) (\<lambda>(a, s).
     and_then (views_step df s) (\<lambda>g.
     and_then (monthly_step df s) (\<lambda>(smc, s).
     and_then (app_merge_step ad_budget smc s) (\<lambda>(merged, s).
     and_then (tail_step srt fmt clicked df s) (\<lambda>t.
       Inr (\<lparr>vm_kpis = k, vm_age_dist = a, vm_grouped = g, vm_merged = merged,
             vm_tail = t\<rparr>, s))))))))"

definition new_app_script ::
    "(product_row list \<Rightarrow> product_row list) \<Rightarrow> (string \<Rightarrow> error + timestamp option)
      \<Rightarrow> (dated_merged_row list \<Rightarrow> dated_merged_row list) \<Rightarrow> csv_format \<Rightarrow> filter_state
      \<Rightarrow> bool \<Rightarrow> nat \<Rightarrow> nat \<Rightarrow> store
      \<Rightarrow> error + (dated_merged_row list view_model \<times> store)" where
  "new_app_script srt parse srt_m fmt fs clicked transactions ad_budget s =
     and_then (filter_step fs transactions s) (\<lambda>(df, s).
     and_then (kpi_step df s) (\<lambda>k.
     and_then (age_step df s) (\<lambda>(a, s).
     and_then (views_step df s) (\<lambda>g.
     and_then (monthly_step df s) (\<lambda>(smc, s).
     and_then (new_app_merge_step parse srt_m ad_budget smc s) (\<lambda>(merged, s).
     and_then (tail_step srt fmt clicked df s) (\<lambda>t.
       Inr (\<lparr>vm_kpis = k, vm_age_dist = a, vm_grouped = g, vm_merged = merged,
             vm_tail = t\<rparr>, s))))))))"

section \<open>The filter as one predicate\<close>


text \<open>The four predicates of the filter, as one predicate on a row.\<close>

definition loyalty_match :: "loyalty_filter \<Rightarrow> transaction \<Rightarrow> bool" where
  "loyalty_match lf r =
     (case lf of
        LF_All \<Rightarrow> True
      | LF_Loyalty_Members \<Rightarrow> has_loyalty r = Some True
      | LF_Non_members \<Rightarrow> has_loyalty r = Some False)"

definition passes :: "date \<Rightarrow> date \<Rightarrow> filter_state \<Rightarrow> transaction \<Rightarrow> bool" where
  "passes d0 d1 fs r =
     ((case transaction_datetime r of
         None \<Rightarrow> False
       | Some t \<Rightarrow> to_datetime d0 \<le> t \<and> t < to_datetime (d1 + 1))
      \<and> emirate r \<in> set (selected_emirates fs)
      \<and> category r \<in> set (selected_categories fs)
      \<and> gender r \<in> set (selected_gender fs)
      \<and> loyalty_match (loyalty_choice fs) r)"

definition amount :: "'a transaction_scheme \<Rightarrow> rat" where
  "amount r = (case total_aed r of None \<Rightarrow> 0 | Some v \<Rightarrow> v)"

section \<open>Auxiliary notions for the properties\<close>

text \<open>The number of rows whose \<open>total_aed\<close> is present: the divisor of the mean.\<close>

definition known_amounts :: "'a transaction_scheme list \<Rightarrow> nat" where
  "known_amounts df = length (dropna (map total_aed df))"

text \<open>The sales a row of the ad-budget table is matched with: the \<open>total_aed\<close> of the
  rows of the view in its month and category.\<close>

definition matching_sales :: "ad_budget_row \<Rightarrow> 'a transaction_scheme list \<Rightarrow> rat" where
  "matching_sales a df =
     series_sum (map total_aed
       (filter (\<lambda>r. ad_month a = Some (month_key (transaction_datetime r))
                    \<and> ad_category a \<noteq> None \<and> ad_category a = category r) df))"

text \<open>The distinct transaction ids of the rows with \<open>has_loyalty = k\<close>, and the ids that
  occur in both loyalty groups.\<close>

definition group_ids :: "bool \<Rightarrow> 'a transaction_scheme list \<Rightarrow> string list" where
  "group_ids k df =
     remdups (dropna (map transaction_id (filter (\<lambda>r. has_loyalty r = Some k) df)))"

definition split_ids :: "'a transaction_scheme list \<Rightarrow> string list" where
  "split_ids df = filter (\<lambda>i. i \<in> set (group_ids False df)) (group_ids True df)"


subsection \<open>Example data\<close>

text \<open>
  \<open>row_a\<close>: 15 January 2025, 10:00; \<open>row_b\<close>: 11 February 2025, a customer aged 85;
  \<open>row_c\<close>: a second line of transaction T1, recorded without loyalty;
  \<open>row_cr\<close>: \<open>row_a\<close> with a carriage return in the product name.
  \<open>ad_january_grocery\<close> is the budget of 1000 for Grocery in January 2025,
  \<open>ad_february_grocery\<close> the budget of 1200 for Grocery in February 2025;
  \<open>example_parse\<close> is a date parser that knows the first days of these two months;
  \<open>january\<close> selects 1 to 31 January 2025 and every emirate, category and gender.
\<close>

definition row_a :: transaction where
  "row_a = \<lparr>transaction_id = Some ''T1'', customer_id = Some ''C1'',
      transaction_datetime = Some (20103 * 86400000000000 + 36000000000000),
      emirate = Some ''Dubai'', category = Some ''Grocery'', product = Some ''Rice'',
      quantity = Some 2, total_aed = Some 50, gender = Some ''F'', age = Some 30,
      has_loyalty = Some True, points_redeemed = Some 0\<rparr>"

definition row_b :: transaction where
  "row_b = \<lparr>transaction_id = Some ''T2'', customer_id = Some ''C2'',
      transaction_datetime = Some (20130 * 86400000000000),
      emirate = Some ''Abu Dhabi'', category = Some ''Electronics'', product = Some ''Phone'',
      quantity = Some 1, total_aed = Some 900, gender = Some ''M'', age = Some 85,
      has_loyalty = Some False, points_redeemed = Some 10\<rparr>"

definition row_c :: transaction where
  "row_c = row_a\<lparr>product := Some ''Milk'', total_aed := Some 8, has_loyalty := Some False\<rparr>"


definition ad_february_grocery :: ad_budget_row where
  "ad_february_grocery =
     \<lparr>ad_month = Some ''2025-02'', ad_category = Some ''Grocery'', ad_budget_aed = Some 1200\<rparr>"

definition example_parse :: "string \<Rightarrow> error + timestamp option" where
  "example_parse s =
     (if s = ''2025-01-01'' then Inr (Some (20089 * 86400000000000))
      else if s = ''2025-02-01'' then Inr (Some (20120 * 86400000000000))
      else Inl ValueError)"

definition ad_january_grocery :: ad_budget_row where
  "ad_january_grocery =
     \<lparr>ad_month = Some ''2025-01'', ad_category = Some ''Grocery'', ad_budget_aed = Some 1000\<rparr>"

definition january :: filter_state where
  "january = \<lparr>date_range = [20089, 20119],
      selected_emirates = [Some ''Dubai'', Some ''Abu Dhabi''],
      selected_categories = [Some ''Grocery'', Some ''Electronics''],
      selected_gender = [Some ''F'', Some ''M''],
      loyalty_choice = LF_All\<rparr>"

text \<open>
  The outputs of a run as functions of the filtered view and the ad-budget table, with
  no store: what the scripts are compared with.
\<close>

definition app_views ::
    "(product_row list \<Rightarrow> product_row list) \<Rightarrow> csv_format \<Rightarrow> bool \<Rightarrow> transaction list
      \<Rightarrow> ad_budget_row list \<Rightarrow> merged_row list view_model" where
  "app_views srt fmt clicked df ad =
     \<lparr>vm_kpis = compute_kpis df,
      vm_age_dist = age_dist (map add_age_group df),
      vm_grouped = compute_views (map add_age_group df),
      vm_merged = app_merged ad (sales_month_cat (map add_month (map add_age_group df))),
      vm_tail = compute_tail srt fmt clicked (map add_age_group df)\<rparr>"

definition new_app_views ::
    "(product_row list \<Rightarrow> product_row list) \<Rightarrow> (string \<Rightarrow> error + timestamp option)
      \<Rightarrow> (dated_merged_row list \<Rightarrow> dated_merged_row list) \<Rightarrow> csv_format \<Rightarrow> bool
      \<Rightarrow> transaction list \<Rightarrow> ad_budget_row list \<Rightarrow> dated_merged_row list view_model" where
  "new_app_views srt parse srt_m fmt clicked df ad =
     \<lparr>vm_kpis = compute_kpis df,
      vm_age_dist = age_dist (map add_age_group df),
      vm_grouped = compute_views (map add_age_group df),
      vm_merged = new_app_sorted parse srt_m ad
                    (sales_month_cat (map add_month (map add_age_group df))),
      vm_tail = compute_tail srt fmt clicked (map add_age_group df)\<rparr>"

text \<open>Everything a run shows except the ad-budget-vs-sales table.\<close>

definition other_views :: "'m view_model \<Rightarrow> unit view_model" where
  "other_views v =
     \<lparr>vm_kpis = vm_kpis v, vm_age_dist = vm_age_dist v, vm_grouped = vm_grouped v,
      vm_merged = (), vm_tail = vm_tail v\<rparr>"

text \<open>The objects the scripts start from: the store after the four tables are loaded
  holds the transaction table and the ad-budget table.\<close>

definition loaded_store :: store where
  "loaded_store = [Transactions [row_a, row_b], AdBudget [ad_january_grocery]]"

definition plain_format :: csv_format where
  "plain_format = \<lparr>number_text = (\<lambda>x. digits (nat \<lfloor>x\<rfloor>)), datetime_text = (\<lambda>t. digits (nat t))\<rparr>"


section \<open>Filter engine: properties\<close>

lemma sum_list_dropna: "sum_list (dropna xs) = (\<Sum>x\<leftarrow>xs. case x of None \<Rightarrow> 0 | Some v \<Rightarrow> v)"
  by (induction xs rule: dropna.induct) simp_all

lemma total_sales_amount: "total_sales df = (\<Sum>r\<leftarrow>df. amount r)"
  by (simp add: total_sales_def series_sum_def sum_list_dropna amount_def comp_def)

lemma loyalty_step_filter: "loyalty_step lf df = filter (loyalty_match lf) df"
  by (cases lf) (simp_all add: loyalty_step_def loyalty_match_def [abs_def])

lemma in_date_range_iff:
  "in_date_range (to_datetime d0) (to_datetime d1 + ns_per_day) r \<longleftrightarrow>
     (case transaction_datetime r of
        None \<Rightarrow> False
      | Some t \<Rightarrow> to_datetime d0 \<le> t \<and> t < to_datetime (d1 + 1))"
  by (cases "transaction_datetime r")
     (simp_all add: in_date_range_def to_datetime_def algebra_simps)

lemma apply_filters_passes:
  "date_range fs = d0 # d1 # ds \<Longrightarrow>
     apply_filters fs transactions = Inr (filter (passes d0 d1 fs) transactions)"
proof -
  assume dr: "date_range fs = d0 # d1 # ds"
  have "(\<lambda>r. in_date_range (to_datetime d0) (to_datetime d1 + ns_per_day) r
              \<and> in_selection fs r \<and> loyalty_match (loyalty_choice fs) r)
        = passes d0 d1 fs"
    by (rule ext) (simp add: passes_def in_selection_def in_date_range_iff)
  then show ?thesis
    by (simp add: apply_filters_def dr loyalty_step_filter conj_commute conj_left_commute)
qed

lemma dropna_append: "dropna (xs @ ys) = dropna xs @ dropna ys"
  by (induction xs rule: dropna.induct) simp_all

lemma set_dropna: "set (dropna xs) = {x. Some x \<in> set xs}"
  by (induction xs rule: dropna.induct) auto

lemma january_view: "apply_filters january [row_a, row_b] = Inr [row_a]"
proof -
  have "date_range january = 20089 # 20119 # []"
    by (simp add: january_def)
  then have "apply_filters january [row_a, row_b]
      = Inr (filter (passes 20089 20119 january) [row_a, row_b])"
    by (rule apply_filters_passes)
  also have "filter (passes 20089 20119 january) [row_a, row_b] = [row_a]"
    by (simp add: passes_def january_def row_a_def row_b_def to_datetime_def ns_per_day_def
        loyalty_match_def)
  finally show ?thesis .
qed

text \<open>
  C1. For a filter state whose date range holds both dates \<open>d0\<close> and \<open>d1\<close>, the filtered
  view is exactly the rows of the transaction table, in their order, that pass all four
  predicates: \<open>transaction_datetime\<close> in \<open>[d0, d1 + 1 day)\<close>, emirate, category and
  gender each a member of its selection, and the loyalty predicate. Hence the view is a
  subset of the table, an empty selection gives no row, and \<open>total_sales\<close> is the sum of
  \<open>total_aed\<close> over exactly those rows (a missing \<open>total_aed\<close> counts as 0, as
  \<^verbatim>\<open>Series.sum\<close> skips it).
\<close>

theorem C1_filtered_view:
  assumes "date_range fs = d0 # d1 # ds"
  shows "apply_filters fs transactions = Inr (filter (passes d0 d1 fs) transactions)
    \<and> set (filter (passes d0 d1 fs) transactions) \<subseteq> set transactions
    \<and> total_sales (filter (passes d0 d1 fs) transactions)
        = (\<Sum>r\<leftarrow>filter (passes d0 d1 fs) transactions. amount r)
    \<and> (selected_emirates fs = [] \<or> selected_categories fs = [] \<or> selected_gender fs = []
        \<longrightarrow> filter (passes d0 d1 fs) transactions = [])"
proof -
  have "selected_emirates fs = [] \<or> selected_categories fs = [] \<or> selected_gender fs = []
        \<Longrightarrow> filter (passes d0 d1 fs) transactions = []"
    by (auto simp: passes_def filter_empty_conv)
  then show ?thesis
    using apply_filters_passes [OF assms] by (simp add: total_sales_amount)
qed

theorem C1_filtered_view_witness:
  "date_range january = [20089, 20119]
   \<and> apply_filters january [row_a, row_b] = Inr [row_a]
   \<and> total_sales [row_a] = 50
   \<and> selected_emirates (january\<lparr>selected_emirates := []\<rparr>) = []
   \<and> apply_filters (january\<lparr>selected_emirates := []\<rparr>) [row_a, row_b] = Inr []"
proof -
  have p: "filter (passes 20089 20119 january) [row_a, row_b] = [row_a]"
    by (simp add: passes_def january_def row_a_def row_b_def to_datetime_def ns_per_day_def
        loyalty_match_def)
  have a: "amount row_a = 50"
    by (simp add: amount_def row_a_def)
  have d: "date_range january = [20089, 20119]"
    by (simp add: january_def)
  have d': "date_range (january\<lparr>selected_emirates := []\<rparr>) = [20089, 20119]"
    by (simp add: january_def)
  show ?thesis
    using C1_filtered_view [OF d, of "[row_a, row_b]"]
      C1_filtered_view [OF d', of "[row_a, row_b]"] p a d
    by simp
qed

section \<open>Age distribution: properties\<close>

lemma cut_age_cases:
  "cut age_bins age_labels (Some a) =
     (if a < 18 then None
      else if a \<le> 25 then Some ''18-24''
      else if a \<le> 35 then Some ''25-34''
      else if a \<le> 45 then Some ''35-44''
      else if a \<le> 55 then Some ''45-54''
      else if a \<le> 65 then Some ''55-64''
      else if a \<le> 80 then Some ''65+''
      else None)"
  by (simp add: cut_def age_bins_def age_labels_def searchsorted_left_def)

lemma age_group_add: "age_group (add_age_group r) = cut age_bins age_labels (age r)"
  by (simp add: add_age_group_def transaction.extend_def)

lemma age_dist_skip:
  "age_group x = None \<Longrightarrow> age_dist (xs @ x # ys) = age_dist (xs @ ys)"
  by (simp add: age_dist_def)

text \<open>
  C3. The code computes the age group with \<^verbatim>\<open>pd.cut\<close> and its default \<^verbatim>\<open>right=True\<close>:
  the bins are closed on the right, \<open>[18,25]\<close>, \<open>(25,35]\<close>, ..., \<open>(65,80]\<close>. Ages 18 and
  24.999 are in "18-24" and age 80 is in "65+", as the claim says, but age 25 is in
  "18-24" too, not in "25-34".
\<close>

theorem C3_age_boundaries:
  "cut age_bins age_labels (Some 18) = Some ''18-24''
   \<and> cut age_bins age_labels (Some 24.999) = Some ''18-24''
   \<and> cut age_bins age_labels (Some 25) = Some ''18-24''
   \<and> cut age_bins age_labels (Some 80) = Some ''65+''"
  by (simp add: cut_def age_bins_def age_labels_def searchsorted_left_def)

section \<open>KPIs: properties\<close>

lemma total_sales_insert: "total_sales (xs @ r # ys) = total_sales (xs @ ys) + amount r"
  by (simp add: total_sales_amount)

lemma total_transactions_card:
  "total_transactions df = card (set (dropna (map transaction_id df)))"
  by (simp add: total_transactions_def series_nunique_def length_remdups_card_conv)

lemma ids_insert:
  "set (dropna (map transaction_id (xs @ r # ys)))
     = set_option (transaction_id r) \<union> set (dropna (map transaction_id (xs @ ys)))"
  by (cases "transaction_id r") (auto simp: dropna_append)

lemma known_amounts_insert:
  "known_amounts (xs @ r # ys)
     = known_amounts (xs @ ys) + (case total_aed r of None \<Rightarrow> 0 | Some v \<Rightarrow> 1)"
  by (cases "total_aed r") (simp_all add: known_amounts_def dropna_append)

lemma avg_basket_ratio:
  "avg_basket df =
     (if known_amounts df = 0 then None else Some (total_sales df / of_nat (known_amounts df)))"
  by (simp add: avg_basket_def series_mean_def known_amounts_def total_sales_def
      series_sum_def Let_def)

text \<open>
  C4 (as amended). On the empty filtered view the KPI computation raises nothing:
  \<open>total_sales\<close> is 0 and is shown as "0.00", the transaction count is 0 and is shown as
  "0", and \<open>avg_basket\<close> is NaN and is shown as the text "nan".
\<close>

theorem C4_empty_view_kpis:
  "total_sales ([] :: transaction list) = 0
   \<and> total_transactions ([] :: transaction list) = 0
   \<and> avg_basket ([] :: transaction list) = None
   \<and> render_kpis ([] :: transaction list)
       = \<lparr>metric_total_sales = ''0.00'', metric_transactions = ''0'',
          metric_avg_basket = ''nan''\<rparr>"
  by (simp add: total_sales_def total_transactions_def avg_basket_def series_sum_def
      series_nunique_def series_mean_def render_kpis_def format_2f_def round_half_even_def
      zero_pad_def digit_char_def)

text \<open>
  C4 as stated fails: the average basket of the empty view is rendered as "nan", which
  is neither a zero nor blank.
\<close>

theorem C4_counterexample:
  "metric_avg_basket (render_kpis ([] :: transaction list)) = ''nan''
   \<and> metric_avg_basket (render_kpis ([] :: transaction list)) \<noteq> ''''
   \<and> metric_avg_basket (render_kpis ([] :: transaction list)) \<noteq> ''0''
   \<and> metric_avg_basket (render_kpis ([] :: transaction list)) \<noteq> ''0.00''"
  by (simp add: render_kpis_def avg_basket_def series_mean_def format_2f_def)

text \<open>
  C10. A row whose age is below 18 or above 80 gets no age group and is counted in no
  bucket of the age distribution: the distribution is the same with the row and without
  it. The same row adds its \<open>total_aed\<close> to \<open>total_sales\<close>, its \<open>transaction_id\<close> to the
  distinct ids counted by \<open>total_transactions\<close>, and its amount and one more row to the
  quotient \<open>avg_basket\<close>.
\<close>

theorem C10_out_of_range_age:
  assumes "age r = Some a" and "a < 18 \<or> 80 < a"
  shows "age_group (add_age_group r) = None
    \<and> age_dist (map add_age_group (xs @ r # ys)) = age_dist (map add_age_group (xs @ ys))
    \<and> total_sales (xs @ r # ys) = total_sales (xs @ ys) + amount r
    \<and> total_transactions (xs @ r # ys)
        = card (set_option (transaction_id r) \<union> set (dropna (map transaction_id (xs @ ys))))
    \<and> avg_basket (xs @ r # ys)
        = (let n = known_amounts (xs @ ys) + (case total_aed r of None \<Rightarrow> 0 | Some v \<Rightarrow> 1)
           in if n = 0 then None else Some ((total_sales (xs @ ys) + amount r) / of_nat n))"
proof -
  have g: "age_group (add_age_group r) = None"
    using assms by (auto simp: age_group_add cut_age_cases)
  have d: "age_dist (map add_age_group (xs @ r # ys)) = age_dist (map add_age_group (xs @ ys))"
    using age_dist_skip [OF g, of "map add_age_group xs" "map add_age_group ys"] by simp
  have t: "total_transactions (xs @ r # ys)
        = card (set_option (transaction_id r) \<union> set (dropna (map transaction_id (xs @ ys))))"
    by (simp only: total_transactions_card ids_insert)
  have b: "avg_basket (xs @ r # ys)
        = (let n = known_amounts (xs @ ys) + (case total_aed r of None \<Rightarrow> 0 | Some v \<Rightarrow> 1)
           in if n = 0 then None else Some ((total_sales (xs @ ys) + amount r) / of_nat n))"
    by (simp only: avg_basket_ratio known_amounts_insert total_sales_insert Let_def)
  from g d t b show ?thesis
    by (simp only: total_sales_insert simp_thms)
qed

theorem C10_out_of_range_age_witness:
  "age row_b = Some 85 \<and> ((85::rat) < 18 \<or> (80::rat) < 85)
   \<and> age_group (add_age_group row_b) = None
   \<and> age_dist (map add_age_group [row_a, row_b]) = age_dist (map add_age_group [row_a])
   \<and> total_sales [row_a, row_b] = total_sales [row_a] + 900
   \<and> total_transactions [row_a, row_b] = 2
   \<and> avg_basket [row_a, row_b] = Some 475"
proof -
  have a: "age row_b = Some 85"
    by (simp add: row_b_def)
  have o: "(85::rat) < 18 \<or> (80::rat) < 85"
    by simp
  have e: "amount row_b = 900" "total_aed row_b = Some 900" "transaction_id row_b = Some ''T2''"
      "total_sales [row_a] = 50" "known_amounts [row_a] = 1"
      "dropna (map transaction_id [row_a]) = [''T1'']"
    by (simp_all add: amount_def row_a_def row_b_def total_sales_def series_sum_def
        known_amounts_def)
  show ?thesis
    using C10_out_of_range_age [OF a o, of "[row_a]" "[]"] a e by simp
qed

section \<open>Grouping and the ad-budget merge: properties\<close>

lemma distinct_group_keys: "distinct (group_keys key df)"
  by (simp add: group_keys_def)

lemma set_group_keys: "set (group_keys key df) = {k. \<exists>r\<in>set df. key r = Some k}"
  by (force simp: group_keys_def set_dropna)

lemma map_fst_groupby: "map fst (groupby_agg key agg df) = group_keys key df"
  by (simp add: groupby_agg_def comp_def)

lemma map_of_groupby:
  "map_of (groupby_agg key agg df) k =
     (if k \<in> set (group_keys key df) then Some (agg (filter (\<lambda>r. key r = Some k) df)) else None)"
  by (simp add: groupby_agg_def map_of_map_restrict restrict_map_def)

lemma filter_key_distinct:
  "distinct (map fst kvs) \<Longrightarrow>
     filter (\<lambda>(k, v). k = key) kvs = (case map_of kvs key of None \<Rightarrow> [] | Some v \<Rightarrow> [(key, v)])"
proof (induction kvs)
  case Nil
  then show ?case by simp
next
  case (Cons kv kvs)
  obtain k v where kv: "kv = (k, v)" by (cases kv)
  show ?case
  proof (cases "k = key")
    case True
    with Cons.prems kv have "map_of kvs key = None"
      by (simp add: map_of_eq_None_iff)
    with Cons True kv show ?thesis by simp
  next
    case False
    with Cons kv show ?thesis by simp
  qed
qed

lemma add_month_fields:
  "month (add_month r) = month_key (transaction_datetime r)"
  "category (add_month r) = category r"
  "total_aed (add_month r) = total_aed r"
  by (simp_all add: add_month_def aged_transaction.extend_def)

lemma merge_left_groups:
  "merge_left ad (sales_month_cat (map add_month df)) =
     map (\<lambda>a. (a, if \<exists>r\<in>set df. ad_month a = Some (month_key (transaction_datetime r))
                        \<and> ad_category a \<noteq> None \<and> ad_category a = category r
                   then Some (matching_sales a df) else None)) ad"
proof -
  let ?key = "key2 (\<lambda>r. Some (month r)) category :: monthly_transaction \<Rightarrow> _"
  have key: "?key (add_month r) = Some (m, c)
      \<longleftrightarrow> month_key (transaction_datetime r) = m \<and> category r = Some c" for r m c
    by (auto simp: key2_def add_month_fields split: option.splits)
  have d: "distinct (map fst (sales_month_cat (map add_month df)))"
    by (simp add: sales_month_cat_def map_fst_groupby distinct_group_keys)
  have one: "(let ms = filter (\<lambda>(k, v). ad_month a = Some (fst k) \<and> ad_category a = Some (snd k))
                       (sales_month_cat (map add_month df))
        in if ms = [] then [(a, None)] else map (\<lambda>(k, v). (a, Some v)) ms)
      = [(a, if \<exists>r\<in>set df. ad_month a = Some (month_key (transaction_datetime r))
                        \<and> ad_category a \<noteq> None \<and> ad_category a = category r
                   then Some (matching_sales a df) else None)]" for a
  proof (cases "ad_month a")
    case None
    then show ?thesis by simp
  next
    case m: (Some m)
    show ?thesis
    proof (cases "ad_category a")
      case None
      then show ?thesis by simp
    next
      case c: (Some c)
      have f: "(\<lambda>(k, v). ad_month a = Some (fst k) \<and> ad_category a = Some (snd k))
                = (\<lambda>(k, v :: rat). k = (m, c))"
        by (auto simp: m c fun_eq_iff)
      have "filter (\<lambda>r. ?key r = Some (m, c)) (map add_month df)
           = map add_month (filter (\<lambda>r. ad_month a = Some (month_key (transaction_datetime r))
                    \<and> ad_category a \<noteq> None \<and> ad_category a = category r) df)"
        unfolding filter_map comp_def
        by (rule arg_cong [where f = "map add_month"], rule filter_cong) (auto simp: key m c)
      then have g: "series_sum (map total_aed (filter (\<lambda>r. ?key r = Some (m, c)) (map add_month df)))
           = matching_sales a df"
        by (simp add: matching_sales_def comp_def add_month_fields)
      have k: "(m, c) \<in> set (group_keys ?key (map add_month df)) \<longleftrightarrow>
            (\<exists>r\<in>set df. ad_month a = Some (month_key (transaction_datetime r))
                        \<and> ad_category a \<noteq> None \<and> ad_category a = category r)"
        by (auto simp: set_group_keys key m c)
      show ?thesis
        unfolding f filter_key_distinct [OF d]
        by (simp add: sales_month_cat_def map_of_groupby g k)
    qed
  qed
  show ?thesis
    unfolding merge_left_def by (simp add: one)
qed

lemma fillna0_matching:
  "fillna0 (if \<exists>r\<in>set df. ad_month a = Some (month_key (transaction_datetime r))
                        \<and> ad_category a \<noteq> None \<and> ad_category a = category r
                   then Some (matching_sales a df) else None) = matching_sales a df"
  by (auto simp: fillna0_def matching_sales_def series_sum_def filter_empty_conv
      intro!: arg_cong [where f = sum_list] arg_cong [where f = dropna])

lemma app_merged_rows:
  "app_merged ad_budget (sales_month_cat (map add_month df)) =
     map (\<lambda>a. \<lparr>merged_month = fillna0_str (ad_month a),
               merged_category = fillna0_str (ad_category a),
               merged_ad_budget_aed = fillna0 (ad_budget_aed a),
               merged_total_aed = matching_sales a df\<rparr>) ad_budget"
  by (simp only: app_merged_def merge_left_groups map_map comp_def prod.case fillna0_matching)

lemma new_app_merged_rows:
  "new_app_merged ad_budget (sales_month_cat (map add_month df)) =
     map (\<lambda>a. \<lparr>new_merged_month = ad_month a,
               new_merged_category = ad_category a,
               new_merged_ad_budget_aed = Some (fillna0 (ad_budget_aed a)),
               new_merged_total_aed = Some (matching_sales a df)\<rparr>) ad_budget"
  by (simp only: new_app_merged_def new_app_merge_def fill_total_aed_def
      fill_ad_budget_aed_def merge_left_groups map_map comp_def prod.case fillna0_matching
      new_merged_row.simps simp_thms)

lemma add_month_dt_row:
  "add_month_dt parse \<lparr>new_merged_month = m, new_merged_category = c,
       new_merged_ad_budget_aed = b, new_merged_total_aed = t\<rparr>
     = \<lparr>new_merged_month = m, new_merged_category = c,
        new_merged_ad_budget_aed = b, new_merged_total_aed = t,
        month_dt = safe_month_to_dt parse m\<rparr>"
  by (simp add: add_month_dt_def new_merged_row.extend_def)

lemma sorts_by_month_dt_sort_key: "sorts_by_month_dt (sort_key month_dt_key)"
  by (simp add: sorts_by_month_dt_def)

text \<open>
  C2 (as amended). In both variants the merge is a left join on the ad-budget table: the
  table the chart is drawn from has exactly one row for each row of the ad-budget table,
  with that row's month, category and budget (a missing budget becomes 0), and with
  \<open>total_aed\<close> the sum of the sales of the view in that month and category, which is 0
  when there are none. A month and category that occur only in the transactions get no
  row. (In \<^verbatim>\<open>new_app.py\<close> the rows are then sorted by month, whatever routine sorts
  them.)
\<close>

theorem C2_left_join:
  "app_merged ad_budget (sales_month_cat (map add_month df)) =
     map (\<lambda>a. \<lparr>merged_month = fillna0_str (ad_month a),
               merged_category = fillna0_str (ad_category a),
               merged_ad_budget_aed = fillna0 (ad_budget_aed a),
               merged_total_aed = matching_sales a df\<rparr>) ad_budget
   \<and> (sorts_by_month_dt srt \<longrightarrow>
        mset (new_app_sorted parse srt ad_budget (sales_month_cat (map add_month df))) =
          mset (map (\<lambda>a. \<lparr>new_merged_month = ad_month a,
                   new_merged_category = ad_category a,
                   new_merged_ad_budget_aed = Some (fillna0 (ad_budget_aed a)),
                   new_merged_total_aed = Some (matching_sales a df),
                   month_dt = safe_month_to_dt parse (ad_month a)\<rparr>) ad_budget)
        \<and> sorted (map month_dt_key
              (new_app_sorted parse srt ad_budget (sales_month_cat (map add_month df)))))"
proof -
  have "map (add_month_dt parse) (new_app_merged ad_budget (sales_month_cat (map add_month df)))
      = map (\<lambda>a. \<lparr>new_merged_month = ad_month a,
                   new_merged_category = ad_category a,
                   new_merged_ad_budget_aed = Some (fillna0 (ad_budget_aed a)),
                   new_merged_total_aed = Some (matching_sales a df),
                   month_dt = safe_month_to_dt parse (ad_month a)\<rparr>) ad_budget"
    by (simp only: new_app_merged_rows map_map comp_def add_month_dt_row)
  then show ?thesis
    by (simp add: app_merged_rows new_app_sorted_def sorts_by_month_dt_def)
qed

theorem C2_left_join_witness:
  "sorts_by_month_dt (sort_key month_dt_key)
   \<and> (mset (new_app_sorted example_parse (sort_key month_dt_key)
              [ad_february_grocery, ad_january_grocery]
              (sales_month_cat (map add_month (map add_age_group [row_a])))) =
          mset (map (\<lambda>a. \<lparr>new_merged_month = ad_month a,
                   new_merged_category = ad_category a,
                   new_merged_ad_budget_aed = Some (fillna0 (ad_budget_aed a)),
                   new_merged_total_aed = Some (matching_sales a (map add_age_group [row_a])),
                   month_dt = safe_month_to_dt example_parse (ad_month a)\<rparr>)
               [ad_february_grocery, ad_january_grocery])
        \<and> sorted (map month_dt_key
              (new_app_sorted example_parse (sort_key month_dt_key)
                [ad_february_grocery, ad_january_grocery]
                (sales_month_cat (map add_month (map add_age_group [row_a]))))))
   \<and> new_app_sorted example_parse (sort_key month_dt_key)
        [ad_february_grocery, ad_january_grocery]
        (sales_month_cat (map add_month (map add_age_group [row_a])))
       = [\<lparr>new_merged_month = Some ''2025-01'', new_merged_category = Some ''Grocery'',
           new_merged_ad_budget_aed = Some 1000, new_merged_total_aed = Some 50,
           month_dt = Some (20089 * 86400000000000)\<rparr>,
          \<lparr>new_merged_month = Some ''2025-02'', new_merged_category = Some ''Grocery'',
           new_merged_ad_budget_aed = Some 1200, new_merged_total_aed = Some 0,
           month_dt = Some (20120 * 86400000000000)\<rparr>]"
proof -
  have v: "new_app_sorted example_parse (sort_key month_dt_key)
        [ad_february_grocery, ad_january_grocery]
        (sales_month_cat (map add_month (map add_age_group [row_a])))
       = [\<lparr>new_merged_month = Some ''2025-01'', new_merged_category = Some ''Grocery'',
           new_merged_ad_budget_aed = Some 1000, new_merged_total_aed = Some 50,
           month_dt = Some (20089 * 86400000000000)\<rparr>,
          \<lparr>new_merged_month = Some ''2025-02'', new_merged_category = Some ''Grocery'',
           new_merged_ad_budget_aed = Some 1200, new_merged_total_aed = Some 0,
           month_dt = Some (20120 * 86400000000000)\<rparr>]"
    by code_simp
  from v sorts_by_month_dt_sort_key
    C2_left_join [of "[ad_february_grocery, ad_january_grocery]" "map add_age_group [row_a]"
      "sort_key month_dt_key" example_parse]
  show ?thesis by blast
qed

text \<open>
  C2 as stated fails: Electronics has sales of 900 in February 2025 and no ad-budget
  entry; the merged table of \<^verbatim>\<open>app.py\<close> (line 92) and the one of \<^verbatim>\<open>new_app.py\<close>, after
  line 98 and after line 111, have the single row of the ad-budget table and no row for
  February and Electronics. (A table of one row has one arrangement: the sort of line
  111 gives it back, whatever the routine.)
\<close>

theorem C2_counterexample:
  "sales_month_cat (map add_month (map add_age_group [row_b]))
       = [((''2025-02'', ''Electronics''), 900)]
   \<and> app_merged [ad_january_grocery] (sales_month_cat (map add_month (map add_age_group [row_b])))
       = [\<lparr>merged_month = Str ''2025-01'', merged_category = Str ''Grocery'',
           merged_ad_budget_aed = 1000, merged_total_aed = 0\<rparr>]
   \<and> new_app_merged [ad_january_grocery]
         (sales_month_cat (map add_month (map add_age_group [row_b])))
       = [\<lparr>new_merged_month = Some ''2025-01'', new_merged_category = Some ''Grocery'',
           new_merged_ad_budget_aed = Some 1000, new_merged_total_aed = Some 0\<rparr>]
   \<and> new_app_sorted example_parse (sort_key month_dt_key) [ad_january_grocery]
         (sales_month_cat (map add_month (map add_age_group [row_b])))
       = [\<lparr>new_merged_month = Some ''2025-01'', new_merged_category = Some ''Grocery'',
           new_merged_ad_budget_aed = Some 1000, new_merged_total_aed = Some 0,
           month_dt = Some (20089 * 86400000000000)\<rparr>]"
proof -
  have s: "sales_month_cat (map add_month (map add_age_group [row_b]))
       = [((''2025-02'', ''Electronics''), 900)]"
    by code_simp
  have "app_merged [ad_january_grocery] [((''2025-02'', ''Electronics''), 900)]
       = [\<lparr>merged_month = Str ''2025-01'', merged_category = Str ''Grocery'',
           merged_ad_budget_aed = 1000, merged_total_aed = 0\<rparr>]"
    by code_simp
  moreover have "new_app_merged [ad_january_grocery] [((''2025-02'', ''Electronics''), 900)]
       = [\<lparr>new_merged_month = Some ''2025-01'', new_merged_category = Some ''Grocery'',
           new_merged_ad_budget_aed = Some 1000, new_merged_total_aed = Some 0\<rparr>]"
    by code_simp
  moreover have "new_app_sorted example_parse (sort_key month_dt_key) [ad_january_grocery]
         [((''2025-02'', ''Electronics''), 900)]
       = [\<lparr>new_merged_month = Some ''2025-01'', new_merged_category = Some ''Grocery'',
           new_merged_ad_budget_aed = Some 1000, new_merged_total_aed = Some 0,
           month_dt = Some (20089 * 86400000000000)\<rparr>]"
    by code_simp
  ultimately show ?thesis
    by (simp only: s simp_thms)
qed

section \<open>Loyalty impact: properties\<close>

lemma loyal_transactions_map:
  "map loyal_transactions (loyal df) = map (\<lambda>k. length (group_ids k df)) (group_keys has_loyalty df)"
  by (simp add: loyal_def groupby_agg_def comp_def series_nunique_def group_ids_def)

lemma group_ids_empty: "k \<notin> set (group_keys has_loyalty df) \<Longrightarrow> group_ids k df = []"
proof -
  assume "k \<notin> set (group_keys has_loyalty df)"
  then have "filter (\<lambda>r. has_loyalty r = Some k) df = []"
    by (auto simp: set_group_keys filter_empty_conv)
  then show ?thesis by (simp add: group_ids_def)
qed

lemma loyal_sum: "sum_list (map loyal_transactions (loyal df))
    = length (group_ids True df) + length (group_ids False df)"
proof -
  let ?f = "\<lambda>k. length (group_ids k df)"
  let ?K = "set (group_keys has_loyalty df)"
  have "sum_list (map ?f (group_keys has_loyalty df)) = sum ?f ?K"
    by (rule sum_list_distinct_conv_sum_set) (rule distinct_group_keys)
  also have "\<dots> = sum ?f (UNIV :: bool set)"
    by (rule sum.mono_neutral_left) (auto simp: group_ids_empty)
  also have "\<dots> = ?f True + ?f False"
    by (simp add: UNIV_bool)
  finally show ?thesis by (simp add: loyal_transactions_map)
qed

lemma set_group_ids:
  "set (group_ids k df) = {i. \<exists>r\<in>set df. has_loyalty r = Some k \<and> transaction_id r = Some i}"
  by (force simp: group_ids_def set_dropna)

lemma length_group_ids: "length (group_ids k df) = card (set (group_ids k df))"
  by (simp add: group_ids_def length_remdups_card_conv)

lemma length_split_ids: "length (split_ids df) = card (set (group_ids True df) \<inter> set (group_ids False df))"
proof -
  have "distinct (split_ids df)" by (simp add: split_ids_def group_ids_def)
  then have "length (split_ids df) = card (set (split_ids df))" by (simp add: distinct_card)
  also have "set (split_ids df) = set (group_ids True df) \<inter> set (group_ids False df)"
    by (auto simp: split_ids_def)
  finally show ?thesis .
qed

lemma all_ids:
  assumes "\<forall>r\<in>set df. has_loyalty r \<noteq> None"
  shows "set (dropna (map transaction_id df)) = set (group_ids True df) \<union> set (group_ids False df)"
proof -
  have "has_loyalty r = Some True \<or> has_loyalty r = Some False" if "r \<in> set df" for r
    using assms that by (cases "has_loyalty r") auto
  then show ?thesis
    by (auto simp: set_group_ids set_dropna) force+
qed

text \<open>
  C6 (as amended). When \<open>has_loyalty\<close> is never missing, the per-group distinct
  transaction counts of the loyalty view add up to the distinct transaction count of
  the whole view plus the number of transaction ids that occur both in a Members row
  and in a Non-members row. So the two agree exactly when no transaction id occurs in
  both groups.
\<close>

theorem C6_loyalty_counts:
  assumes "\<forall>r\<in>set df. has_loyalty r \<noteq> None"
  shows "sum_list (map loyal_transactions (loyal df)) = total_transactions df + length (split_ids df)
    \<and> (sum_list (map loyal_transactions (loyal df)) = total_transactions df \<longleftrightarrow> split_ids df = [])"
proof -
  let ?A = "set (group_ids True df)" and ?B = "set (group_ids False df)"
  have "card ?A + card ?B = card (?A \<union> ?B) + card (?A \<inter> ?B)"
    by (rule card_Un_Int) simp_all
  then have "sum_list (map loyal_transactions (loyal df)) = total_transactions df + length (split_ids df)"
    by (simp add: loyal_sum length_group_ids length_split_ids total_transactions_card
        all_ids [OF assms])
  then show ?thesis by simp
qed

theorem C6_loyalty_counts_witness:
  "has_loyalty row_a \<noteq> None \<and> has_loyalty row_b \<noteq> None
   \<and> sum_list (map loyal_transactions (loyal [row_a, row_b])) = 2
   \<and> total_transactions [row_a, row_b] = 2
   \<and> split_ids [row_a, row_b] = []"
proof -
  have h: "\<forall>r\<in>set [row_a, row_b]. has_loyalty r \<noteq> None"
    by (auto simp: row_a_def row_b_def)
  have t: "total_transactions [row_a, row_b] = 2"
    by code_simp
  have s: "split_ids [row_a, row_b] = []"
    by code_simp
  show ?thesis
    using C6_loyalty_counts [OF h] h t s by simp
qed

text \<open>
  C6 as stated fails: \<open>row_a\<close> and \<open>row_c\<close> are two lines of transaction T1, one
  recorded with loyalty and one without. Neither \<open>has_loyalty\<close> is missing; each group
  counts T1 once, so the counts add up to 2, while the whole view has 1 transaction.
\<close>

theorem C6_counterexample:
  "has_loyalty row_a \<noteq> None \<and> has_loyalty row_c \<noteq> None
   \<and> sum_list (map loyal_transactions (loyal [row_a, row_c])) = 2
   \<and> total_transactions [row_a, row_c] = 1"
proof -
  have "has_loyalty row_a \<noteq> None" "has_loyalty row_c \<noteq> None"
    by (simp_all add: row_a_def row_c_def)
  moreover have "sum_list (map loyal_transactions (loyal [row_a, row_c])) = 2"
    by code_simp
  moreover have "total_transactions [row_a, row_c] = 1"
    by code_simp
  ultimately show ?thesis by (intro conjI)
qed

section \<open>Top products: properties\<close>

lemma sorts_descending_sort_key: "sorts_descending (sort_key (\<lambda>r. - sales r))"
  unfolding sorts_descending_def
proof (intro allI conjI)
  fix xs :: "product_row list"
  show "mset (sort_key (\<lambda>r. - sales r) xs) = mset xs" by simp
  have "sorted (map (\<lambda>r. - sales r) (sort_key (\<lambda>r. - sales r) xs))" by (rule sorted_sort_key)
  then show "sorted_wrt (\<lambda>a b. sales b \<le> sales a) (sort_key (\<lambda>r. - sales r) xs)"
    by (simp add: sorted_map)
qed

text \<open>
  Whatever routine sorts the groups into descending \<open>sales\<close>, the top-products table
  has at most 15 rows, is in descending order of \<open>sales\<close>, and consists of groups of the
  view. In what order rows with equal \<open>sales\<close> come out is up to that routine.
\<close>

lemma top_products_descending:
  assumes "sorts_descending srt"
  shows "length (top_products srt df) \<le> 15
    \<and> sorted_wrt (\<lambda>a b. sales b \<le> sales a) (top_products srt df)
    \<and> mset (top_products srt df) \<subseteq># mset (product_groups df)"
proof -
  let ?g = "product_groups df"
  from assms have m: "mset (srt ?g) = mset ?g"
    and s: "sorted_wrt (\<lambda>a b. sales b \<le> sales a) (srt ?g)"
    by (simp_all add: sorts_descending_def)
  have "sorted_wrt (\<lambda>a b. sales b \<le> sales a) (take 15 (srt ?g))"
    using s by (rule sorted_wrt_take)
  moreover have "mset (take 15 (srt ?g)) \<subseteq># mset (srt ?g)"
    by (metis append_take_drop_id mset_append mset_subset_eq_add_left)
  ultimately show ?thesis
    by (simp add: top_products_def m)
qed

section \<open>Export: properties\<close>














section \<open>The scripts: properties\<close>

lemma and_then_simps: "and_then (Inl e) f = Inl e" "and_then (Inr v) f = f v"
  by (simp_all add: and_then_def)

lemma read_own: "read_object (s @ [v]) (length s) = Inr v"
  by (simp add: read_object_def)

lemma read_old: "read_object (s @ [v]) a = (if a = length s then Inr v else read_object s a)"
  by (auto simp: read_object_def nth_append)

lemma read_update:
  "read_object (s[a := v]) b = (if b = a \<and> a < length s then Inr v else read_object s b)"
  by (auto simp: read_object_def)

lemma filter_step_eq:
  "filter_step fs t s =
     and_then (get_transactions s t) (\<lambda>rows.
     and_then (apply_filters fs rows) (\<lambda>df.
       Inr (Suc (length s), s @ [Transactions rows, Transactions df])))"
  by (cases "get_transactions s t")
     (simp_all add: filter_step_def and_then_simps new_object_def get_transactions_def read_own)

lemma kpi_step_eq:
  "df < length s \<Longrightarrow> s ! df = Transactions rows \<Longrightarrow> kpi_step df s = Inr (compute_kpis rows)"
  by (simp add: kpi_step_def get_transactions_def read_object_def and_then_simps)

lemma age_step_eq:
  "df < length s \<Longrightarrow> s ! df = Transactions rows \<Longrightarrow>
     age_step df s = Inr (age_dist (map add_age_group rows), s[df := Aged (map add_age_group rows)])"
  by (simp add: age_step_def get_transactions_def get_aged_def read_object_def and_then_simps)

lemma views_step_eq:
  "df < length s \<Longrightarrow> s ! df = Aged rows \<Longrightarrow> views_step df s = Inr (compute_views rows)"
  by (simp add: views_step_def get_aged_def read_object_def and_then_simps)

lemma monthly_step_eq:
  "df < length s \<Longrightarrow> s ! df = Aged rows \<Longrightarrow>
     monthly_step df s = Inr (sales_month_cat (map add_month rows), s @ [Monthly (map add_month rows)])"
  by (simp add: monthly_step_def get_aged_def get_monthly_def read_object_def and_then_simps
      new_object_def nth_append)

lemma app_merge_step_eq:
  "app_merge_step a smc s =
     and_then (get_ad_budget s a) (\<lambda>ad. Inr (app_merged ad smc, s @ [AdBudget ad]))"
  by (cases "get_ad_budget s a")
     (simp_all add: app_merge_step_def and_then_simps new_object_def get_ad_budget_def read_own)

lemma new_app_merge_step_eq:
  "new_app_merge_step parse srt_m a smc s =
     and_then (get_ad_budget s a) (\<lambda>ad.
       Inr (new_app_sorted parse srt_m ad smc,
            s @ [AdBudget ad, Dated (map (add_month_dt parse) (new_app_merged ad smc)),
                 Dated (new_app_sorted parse srt_m ad smc)]))"
  by (cases "get_ad_budget s a")
     (simp_all add: new_app_merge_step_def and_then_simps new_object_def get_ad_budget_def
        get_new_merged_def get_dated_def read_own read_update new_app_merged_def
        new_app_sorted_def)

lemma tail_step_eq:
  "df < length s \<Longrightarrow> s ! df = Aged rows \<Longrightarrow>
     tail_step srt fmt clicked df s = Inr (compute_tail srt fmt clicked rows)"
  by (simp add: tail_step_def get_aged_def read_object_def and_then_simps)

lemma tail_step_at:
  "tail_step srt fmt clicked (Suc (length s)) (s @ x # Aged rows # xs)
     = Inr (compute_tail srt fmt clicked rows)"
  by (rule tail_step_eq) (simp_all add: nth_append)

text \<open>The store a run has built when it reaches the merge: the store it started from,
  the copy of the transaction table, the filtered view with its age groups, and the
  monthly copy.\<close>

lemma app_script_eq:
  "app_script srt fmt fs clicked t a s =
     and_then (get_transactions s t) (\<lambda>rows.
     and_then (apply_filters fs rows) (\<lambda>df.
     and_then (get_ad_budget
         (s @ [Transactions rows, Aged (map add_age_group df),
               Monthly (map add_month (map add_age_group df))]) a) (\<lambda>ad.
       Inr (app_views srt fmt clicked df ad,
            s @ [Transactions rows, Aged (map add_age_group df),
                 Monthly (map add_month (map add_age_group df)), AdBudget ad]))))"
proof (cases "get_transactions s t")
  case (Inl e)
  then show ?thesis
    by (simp add: app_script_def filter_step_eq and_then_simps)
next
  case rows: (Inr rows)
  show ?thesis
  proof (cases "apply_filters fs rows")
    case (Inl e)
    with rows show ?thesis
      by (simp add: app_script_def filter_step_eq and_then_simps)
  next
    case df: (Inr df)
    let ?s1 = "s @ [Transactions rows, Transactions df]"
    let ?s2 = "s @ [Transactions rows, Aged (map add_age_group df)]"
    let ?s3 = "?s2 @ [Monthly (map add_month (map add_age_group df))]"
    have s1: "Suc (length s) < length ?s1" "?s1 ! Suc (length s) = Transactions df"
      by (simp_all add: nth_append)
    have u: "?s1[Suc (length s) := Aged (map add_age_group df)] = ?s2"
      by (simp add: list_update_append)
    have s2: "Suc (length s) < length ?s2" "?s2 ! Suc (length s) = Aged (map add_age_group df)"
      by (simp_all add: nth_append)
    show ?thesis
      unfolding app_script_def filter_step_eq rows df and_then_simps prod.case
        kpi_step_eq [OF s1] age_step_eq [OF s1] u views_step_eq [OF s2] monthly_step_eq [OF s2]
        app_merge_step_eq
      by (cases "get_ad_budget ?s3 a") (simp_all add: and_then_simps tail_step_at app_views_def)
  qed
qed

lemma new_app_script_eq:
  "new_app_script srt parse srt_m fmt fs clicked t a s =
     and_then (get_transactions s t) (\<lambda>rows.
     and_then (apply_filters fs rows) (\<lambda>df.
     and_then (get_ad_budget
         (s @ [Transactions rows, Aged (map add_age_group df),
               Monthly (map add_month (map add_age_group df))]) a) (\<lambda>ad.
       Inr (new_app_views srt parse srt_m fmt clicked df ad,
            s @ [Transactions rows, Aged (map add_age_group df),
                 Monthly (map add_month (map add_age_group df)), AdBudget ad,
                 Dated (map (add_month_dt parse) (new_app_merged ad
                   (sales_month_cat (map add_month (map add_age_group df))))),
                 Dated (new_app_sorted parse srt_m ad
                   (sales_month_cat (map add_month (map add_age_group df))))]))))"
proof (cases "get_transactions s t")
  case (Inl e)
  then show ?thesis
    by (simp add: new_app_script_def filter_step_eq and_then_simps)
next
  case rows: (Inr rows)
  show ?thesis
  proof (cases "apply_filters fs rows")
    case (Inl e)
    with rows show ?thesis
      by (simp add: new_app_script_def filter_step_eq and_then_simps)
  next
    case df: (Inr df)
    let ?s1 = "s @ [Transactions rows, Transactions df]"
    let ?s2 = "s @ [Transactions rows, Aged (map add_age_group df)]"
    let ?s3 = "?s2 @ [Monthly (map add_month (map add_age_group df))]"
    have s1: "Suc (length s) < length ?s1" "?s1 ! Suc (length s) = Transactions df"
      by (simp_all add: nth_append)
    have u: "?s1[Suc (length s) := Aged (map add_age_group df)] = ?s2"
      by (simp add: list_update_append)
    have s2: "Suc (length s) < length ?s2" "?s2 ! Suc (length s) = Aged (map add_age_group df)"
      by (simp_all add: nth_append)
    show ?thesis
      unfolding new_app_script_def filter_step_eq rows df and_then_simps prod.case
        kpi_step_eq [OF s1] age_step_eq [OF s1] u views_step_eq [OF s2] monthly_step_eq [OF s2]
        new_app_merge_step_eq
      by (cases "get_ad_budget ?s3 a")
         (simp_all add: and_then_simps tail_step_at new_app_views_def)
  qed
qed

lemma get_ad_budget_old:
  "a < length s \<Longrightarrow> s ! a = AdBudget ad \<Longrightarrow> get_ad_budget (s @ xs) a = Inr ad"
  by (simp add: get_ad_budget_def read_object_def and_then_simps nth_append)

lemma get_transactions_old:
  "t < length s \<Longrightarrow> s ! t = Transactions rows \<Longrightarrow> get_transactions s t = Inr rows"
  by (simp add: get_transactions_def read_object_def and_then_simps)

text \<open>
  C8. Let the store hold the loaded transaction table and the loaded ad-budget table,
  and anything else. In both variants the outputs of a run (KPIs, the seven views, the
  export) are a function of the two tables, the filter state, the sorting routines, the
  date parser, the text format and the export button alone, whatever else the store
  holds; and the run
  leaves every object that was in the store as it was: it writes only to the frames it
  has made itself. So a second run, from the store the first one left, shows the same
  outputs.
\<close>

theorem C8_pure_outputs:
  assumes "t < length s" and "a < length s"
    and "s ! t = Transactions rows" and "s ! a = AdBudget ad"
  shows "map_sum id fst (app_script srt fmt fs clicked t a s)
        = map_sum id (\<lambda>df. app_views srt fmt clicked df ad) (apply_filters fs rows)
    \<and> map_sum id (\<lambda>(v, s'). take (length s) s') (app_script srt fmt fs clicked t a s)
        = map_sum id (\<lambda>df. s) (apply_filters fs rows)
    \<and> map_sum id fst (new_app_script srt parse srt_m fmt fs clicked t a s)
        = map_sum id (\<lambda>df. new_app_views srt parse srt_m fmt clicked df ad)
            (apply_filters fs rows)
    \<and> map_sum id (\<lambda>(v, s'). take (length s) s')
          (new_app_script srt parse srt_m fmt fs clicked t a s)
        = map_sum id (\<lambda>df. s) (apply_filters fs rows)"
proof -
  have g: "get_ad_budget (s @ xs) a = Inr ad" for xs
    using assms(2,4) by (rule get_ad_budget_old)
  have r: "get_transactions s t = Inr rows"
    using assms(1,3) by (rule get_transactions_old)
  show ?thesis
    by (cases "apply_filters fs rows")
       (simp_all add: app_script_eq new_app_script_eq r g and_then_simps)
qed

theorem C8_pure_outputs_witness:
  "(0::nat) < length loaded_store \<and> (1::nat) < length loaded_store
   \<and> loaded_store ! 0 = Transactions [row_a, row_b]
   \<and> loaded_store ! 1 = AdBudget [ad_january_grocery]
   \<and> map_sum id fst
          (app_script (sort_key (\<lambda>r. - sales r)) plain_format january True 0 1 loaded_store)
        = map_sum id
            (\<lambda>df. app_views (sort_key (\<lambda>r. - sales r)) plain_format True df [ad_january_grocery])
            (apply_filters january [row_a, row_b])
   \<and> map_sum id (\<lambda>(v, s'). take (length loaded_store) s')
          (app_script (sort_key (\<lambda>r. - sales r)) plain_format january True 0 1 loaded_store)
        = map_sum id (\<lambda>df. loaded_store) (apply_filters january [row_a, row_b])
   \<and> map_sum id fst
          (new_app_script (sort_key (\<lambda>r. - sales r)) example_parse (sort_key month_dt_key)
             plain_format january True 0 1 loaded_store)
        = map_sum id
            (\<lambda>df. new_app_views (sort_key (\<lambda>r. - sales r)) example_parse (sort_key month_dt_key)
                    plain_format True df [ad_january_grocery])
            (apply_filters january [row_a, row_b])
   \<and> map_sum id (\<lambda>(v, s'). take (length loaded_store) s')
          (new_app_script (sort_key (\<lambda>r. - sales r)) example_parse (sort_key month_dt_key)
             plain_format january True 0 1 loaded_store)
        = map_sum id (\<lambda>df. loaded_store) (apply_filters january [row_a, row_b])
   \<and> apply_filters january [row_a, row_b] = Inr [row_a]"
proof -
  have h: "(0::nat) < length loaded_store" "(1::nat) < length loaded_store"
      "loaded_store ! 0 = Transactions [row_a, row_b]"
      "loaded_store ! 1 = AdBudget [ad_january_grocery]"
    by (simp_all add: loaded_store_def)
  from h january_view
    C8_pure_outputs [OF h, of "sort_key (\<lambda>r. - sales r)" plain_format january True
      example_parse "sort_key month_dt_key"]
  show ?thesis by blast
qed

text \<open>
  C9. On every store, filter state and button state the two variants fail alike or
  show the same filtered view, the same KPIs and the same tables for every view other
  than the ad-budget-vs-smc one (and the same export).
\<close>

theorem C9_variants_agree:
  "map_sum id (\<lambda>(v, s'). other_views v) (app_script srt fmt fs clicked t a s)
     = map_sum id (\<lambda>(v, s'). other_views v)
         (new_app_script srt parse srt_m fmt fs clicked t a s)"
proof (cases "get_transactions s t")
  case (Inl e)
  then show ?thesis
    by (simp add: app_script_eq new_app_script_eq and_then_simps)
next
  case rows: (Inr rows)
  show ?thesis
  proof (cases "apply_filters fs rows")
    case (Inl e)
    with rows show ?thesis
      by (simp add: app_script_eq new_app_script_eq and_then_simps)
  next
    case df: (Inr df)
    show ?thesis
      unfolding app_script_eq new_app_script_eq rows df and_then_simps
      by (cases "get_ad_budget (s @ [Transactions rows, Aged (map add_age_group df),
               Monthly (map add_month (map add_age_group df))]) a")
         (simp_all add: and_then_simps other_views_def app_views_def new_app_views_def)
  qed
qed

end
